theory Spec2Isabelle
  imports Main "HOL-Library.AList"
begin

section \<open>JavaScript objects, as far as the utility looks at them\<close>

text \<open>
  The utility \<^verbatim>\<open>loadExternalMethods\<close> and its four helpers work on a Sequelize
  \<^verbatim>\<open>Model\<close>: a JavaScript object whose own namespace holds the static methods, whose
  member \<^verbatim>\<open>prototype\<close> holds the instance methods together with the containers
  \<^verbatim>\<open>_customGetters\<close>, \<^verbatim>\<open>_customSetters\<close> and their counters, and whose member
  \<^verbatim>\<open>options\<close> holds \<^verbatim>\<open>getterMethods\<close> and \<^verbatim>\<open>setterMethods\<close>.

  An object is its table of own properties, in creation order, and the table of the
  properties it reaches through its prototype chain, nearest first. Every property is a
  data property with the three attributes of its descriptor. Nested objects are held by
  value: the utility never relies on the identity of a container. Accessor properties,
  non-extensible objects and the numeric ordering of integer-like keys are not modelled.
  Callables are opaque values of type \<open>'v\<close>, never looked into: where the utility
  would look for a property on one, it is treated as a primitive value. HOL equality on
  values stands for \<^verbatim>\<open>SameValue\<close>.
\<close>

datatype 'v jsval =
    Undefined
  | Num nat
  | Callable 'v
  | Native string
  | Obj "'v jsobj"
and 'v jsobj =
    JSObj (own: "(string \<times> 'v jsprop) list") (inherited: "(string \<times> 'v jsprop) list")
and 'v jsprop =
    Prop (pvalue: "'v jsval") (writable: bool) (enumerable: bool) (configurable: bool)

datatype error = TypeError

text \<open>A property as an assignment or an object literal creates it.\<close>

definition ordinary :: "'v jsval \<Rightarrow> 'v jsprop" where
  "ordinary v = Prop v True True True"

text \<open>A property as \<^verbatim>\<open>Object.defineProperty(o, n, { value: v })\<close> creates it.\<close>

definition value_only :: "'v jsval \<Rightarrow> 'v jsprop" where
  "value_only v = Prop v False False False"

definition set_value :: "'v jsval \<Rightarrow> 'v jsprop \<Rightarrow> 'v jsprop" where
  "set_value v p = Prop v (writable p) (enumerable p) (configurable p)"

text \<open>The property a name resolves to: own first, then along the prototype chain.\<close>

definition lookup :: "'v jsobj \<Rightarrow> string \<Rightarrow> 'v jsprop option" where
  "lookup obj n =
     (case map_of (own obj) n of
        Some p \<Rightarrow> Some p
      | None \<Rightarrow> map_of (inherited obj) n)"

text \<open>\<^verbatim>\<open>n in obj\<close>\<close>

definition has_property :: "'v jsobj \<Rightarrow> string \<Rightarrow> bool" where
  "has_property obj n = (lookup obj n \<noteq> None)"

text \<open>\<^verbatim>\<open>obj[n]\<close>\<close>

definition js_get :: "'v jsobj \<Rightarrow> string \<Rightarrow> 'v jsval" where
  "js_get obj n = (case lookup obj n of Some p \<Rightarrow> pvalue p | None \<Rightarrow> Undefined)"

text \<open>
  \<^verbatim>\<open>obj[n] = v\<close> outside strict mode (the module has no \<^verbatim>\<open>'use strict'\<close>): an own
  writable property takes the value and keeps its attributes, a name that is absent or
  inherited as writable becomes a new ordinary own property, and an assignment that a
  non-writable property blocks is dropped without an exception.
\<close>

definition js_set :: "'v jsobj \<Rightarrow> string \<Rightarrow> 'v jsval \<Rightarrow> 'v jsobj" where
  "js_set obj n v =
     (case map_of (own obj) n of
        Some p \<Rightarrow>
          if writable p then JSObj (AList.map_entry n (set_value v) (own obj)) (inherited obj)
          else obj
      | None \<Rightarrow>
          (case map_of (inherited obj) n of
             Some p \<Rightarrow>
               if writable p then JSObj (own obj @ [(n, ordinary v)]) (inherited obj)
               else obj
           | None \<Rightarrow> JSObj (own obj @ [(n, ordinary v)]) (inherited obj)))"

text \<open>
  \<^verbatim>\<open>Object.defineProperty(obj, n, { value: v })\<close>: a name that is not an own property
  becomes one with all three attributes false; an own property keeps its attributes and
  takes the value, unless it is neither configurable nor writable and holds another
  value, which raises \<^verbatim>\<open>TypeError\<close>.
\<close>

definition define_value :: "'v jsobj \<Rightarrow> string \<Rightarrow> 'v jsval \<Rightarrow> error + 'v jsobj" where
  "define_value obj n v =
     (case map_of (own obj) n of
        None \<Rightarrow> Inr (JSObj (own obj @ [(n, value_only v)]) (inherited obj))
      | Some p \<Rightarrow>
          if \<not> configurable p \<and> \<not> writable p \<and> pvalue p \<noteq> v then Inl TypeError
          else Inr (JSObj (AList.map_entry n (set_value v) (own obj)) (inherited obj)))"

text \<open>
  The object a member refers to is mutated in place; with objects held by value, the
  mutated object is put back where the member was found.
\<close>

definition put_back :: "'v jsobj \<Rightarrow> string \<Rightarrow> 'v jsval \<Rightarrow> 'v jsobj" where
  "put_back obj n v =
     (case map_of (own obj) n of
        Some p \<Rightarrow> JSObj (AList.map_entry n (set_value v) (own obj)) (inherited obj)
      | None \<Rightarrow> JSObj (own obj) (AList.map_entry n (set_value v) (inherited obj)))"

text \<open>\<^verbatim>\<open>Object.entries(obj)\<close>: the own enumerable properties, in order.\<close>

definition entries :: "'v jsobj \<Rightarrow> (string \<times> 'v jsval) list" where
  "entries obj = map (\<lambda>(n, p). (n, pvalue p)) (filter (\<lambda>(n, p). enumerable p) (own obj))"

text \<open>What \<^verbatim>\<open>...x\<close> contributes to an object literal; \<^verbatim>\<open>undefined\<close> contributes nothing.\<close>

definition spread :: "'v jsval \<Rightarrow> (string \<times> 'v jsval) list" where
  "spread x = (case x of Obj obj \<Rightarrow> entries obj | _ \<Rightarrow> [])"

text \<open>The members every object literal inherits from \<^verbatim>\<open>Object.prototype\<close>.\<close>

definition Object_prototype_names :: "string list" where
  "Object_prototype_names =
     [''constructor'', ''hasOwnProperty'', ''isPrototypeOf'', ''propertyIsEnumerable'',
      ''toLocaleString'', ''toString'', ''valueOf'', ''__proto__'',
      ''__defineGetter__'', ''__defineSetter__'', ''__lookupGetter__'', ''__lookupSetter__'']"

definition natives :: "string list \<Rightarrow> (string \<times> 'v jsprop) list" where
  "natives ns = map (\<lambda>n. (n, Prop (Native n) True False True)) ns"

abbreviation Object_prototype :: "(string \<times> 'v jsprop) list" where
  "Object_prototype \<equiv> natives Object_prototype_names"

text \<open>
  Creating the given entries as ordinary own properties, left to right: a name that is
  already there keeps its place and is replaced.
\<close>

definition create_properties ::
  "(string \<times> 'v jsprop) list \<Rightarrow> (string \<times> 'v jsval) list \<Rightarrow> (string \<times> 'v jsprop) list" where
  "create_properties ps es = foldl (\<lambda>ps (n, v). AList.update n (ordinary v) ps) ps es"

text \<open>An object literal \<^verbatim>\<open>{ ...a, ...b }\<close> from the entries it is given.\<close>

definition object_literal :: "(string \<times> 'v jsval) list \<Rightarrow> 'v jsobj" where
  "object_literal es = JSObj (create_properties [] es) Object_prototype"

text \<open>\<^verbatim>\<open>n in x\<close> raises on anything that is not an object.\<close>

definition js_in :: "string \<Rightarrow> 'v jsval \<Rightarrow> error + bool" where
  "js_in n x = (case x of Obj obj \<Rightarrow> Inr (has_property obj n) | _ \<Rightarrow> Inl TypeError)"

text \<open>\<^verbatim>\<open>x.n\<close> raises on \<^verbatim>\<open>undefined\<close>; on any other non-object it is \<^verbatim>\<open>undefined\<close>.\<close>

definition member :: "'v jsval \<Rightarrow> string \<Rightarrow> error + 'v jsval" where
  "member x n =
     (case x of
        Obj obj \<Rightarrow> Inr (js_get obj n)
      | Undefined \<Rightarrow> Inl TypeError
      | _ \<Rightarrow> Inr Undefined)"

section \<open>The console and the outcome of a call\<close>

record 'v world =
  model :: "'v jsobj"
  console :: "string list"

datatype 'v outcome =
    Done (world_of: "'v world")
  | Threw error (world_of: "'v world")

definition console_warn :: "string \<Rightarrow> 'v world \<Rightarrow> 'v world" where
  "console_warn msg w = w\<lparr>console := console w @ [msg]\<rparr>"

definition and_then :: "'v outcome \<Rightarrow> ('v world \<Rightarrow> 'v outcome) \<Rightarrow> 'v outcome" where
  "and_then r f = (case r of Done w \<Rightarrow> f w | Threw e w \<Rightarrow> Threw e w)"

definition threw :: "'v outcome \<Rightarrow> bool" where
  "threw r = (case r of Done w \<Rightarrow> False | Threw e w \<Rightarrow> True)"

section \<open>The utility\<close>

definition overrideWarning :: "string \<Rightarrow> string \<Rightarrow> string" where
  "overrideWarning location methodName =
     ''Existing ['' @ location @ ''] method ['' @ methodName @
     ''] overridden by loadExternalMethods''"


text \<open>
  \<^verbatim>\<open>Object.defineProperty(x, n, { value: v })\<close> raises on anything that is not an
  object.
\<close>

definition Object_defineProperty :: "'v jsval \<Rightarrow> string \<Rightarrow> 'v jsval \<Rightarrow> error + 'v jsobj" where
  "Object_defineProperty x n v =
     (case x of Obj obj \<Rightarrow> define_value obj n v | _ \<Rightarrow> Inl TypeError)"

text \<open>
  The loop of \<^verbatim>\<open>loadGetters\<close> and of \<^verbatim>\<open>loadSetters\<close>, which differ in the location tag and
  in the container they look into:
  \<^verbatim>\<open>
  for (const getterName of Object.keys(getterMethods)) {
    const methodWillOverride = getterName in Model.prototype._customGetters;
    if (methodWillOverride) {
      warn && console.warn(overrideWarning('getterMethods', getterName));
    }
  }
  \<close>
\<close>

fun warnOverrides :: "string \<Rightarrow> string \<Rightarrow> 'v world \<Rightarrow> string list \<Rightarrow> bool \<Rightarrow> 'v outcome" where
  "warnOverrides location custom w [] warn = Done w"
| "warnOverrides location custom w (methodName # rest) warn =
     (case member (js_get (model w) ''prototype'') custom of
        Inl e \<Rightarrow> Threw e w
      | Inr container \<Rightarrow>
          (case js_in methodName container of
             Inl e \<Rightarrow> Threw e w
           | Inr methodWillOverride \<Rightarrow>
               warnOverrides location custom
                 (if methodWillOverride \<and> warn
                  then console_warn (overrideWarning location methodName) w else w)
                 rest warn))"

text \<open>
  \<^verbatim>\<open>Model.options.getterMethods = { ...Model.options.getterMethods, ...getterMethods }\<close>,
  and the same statement for \<^verbatim>\<open>setterMethods\<close>. Reading a member of \<^verbatim>\<open>undefined\<close>
  raises; an assignment to a member of any other non-object is dropped.
\<close>

definition mergeOption :: "string \<Rightarrow> 'v world \<Rightarrow> (string \<times> 'v jsval) list \<Rightarrow> 'v outcome" where
  "mergeOption option w methods =
     (case js_get (model w) ''options'' of
        Undefined \<Rightarrow> Threw TypeError w
      | Obj opts \<Rightarrow>
          Done (w\<lparr>model :=
            put_back (model w) ''options''
              (Obj (js_set opts option
                 (Obj (object_literal (spread (js_get opts option) @ methods)))))\<rparr>)
      | _ \<Rightarrow> Done w)"

text \<open>
  \<^verbatim>\<open>Model.refreshAttributes()\<close>. The routine belongs to the host ORM, not to the
  utility: \<open>invoke f this\<close> is what calling the value \<open>f\<close> on \<open>this\<close> does to \<open>this\<close>.
\<close>

definition callRefreshAttributes ::
  "('v jsval \<Rightarrow> 'v jsobj \<Rightarrow> error + 'v jsobj) \<Rightarrow> 'v world \<Rightarrow> 'v outcome" where
  "callRefreshAttributes invoke w =
     (case invoke (js_get (model w) ''refreshAttributes'') (model w) of
        Inl e \<Rightarrow> Threw e w
      | Inr m \<Rightarrow> Done (w\<lparr>model := m\<rparr>))"

definition loadGetters ::
  "('v jsval \<Rightarrow> 'v jsobj \<Rightarrow> error + 'v jsobj) \<Rightarrow>
   'v world \<Rightarrow> (string \<times> 'v jsval) list \<Rightarrow> bool \<Rightarrow> 'v outcome" where
  "loadGetters invoke w getterMethods warn =
     and_then (warnOverrides ''getterMethods'' ''_customGetters'' w (map fst getterMethods) warn)
       (\<lambda>w. and_then (mergeOption ''getterMethods'' w getterMethods)
         (callRefreshAttributes invoke))"

definition loadSetters ::
  "('v jsval \<Rightarrow> 'v jsobj \<Rightarrow> error + 'v jsobj) \<Rightarrow>
   'v world \<Rightarrow> (string \<times> 'v jsval) list \<Rightarrow> bool \<Rightarrow> 'v outcome" where
  "loadSetters invoke w setterMethods warn =
     and_then (warnOverrides ''setterMethods'' ''_customSetters'' w (map fst setterMethods) warn)
       (\<lambda>w. and_then (mergeOption ''setterMethods'' w setterMethods)
         (callRefreshAttributes invoke))"

fun loadPrototypes :: "'v world \<Rightarrow> (string \<times> 'v jsval) list \<Rightarrow> bool \<Rightarrow> 'v outcome" where
  "loadPrototypes w [] warn = Done w"
| "loadPrototypes w ((prototypeName, method) # rest) warn =
     (case js_in prototypeName (js_get (model w) ''prototype'') of
        Inl e \<Rightarrow> Threw e w
      | Inr exists \<Rightarrow>
          (let w1 = (if exists \<and> warn
                     then console_warn (overrideWarning ''prototype'' prototypeName) w else w)
           in case Object_defineProperty (js_get (model w1) ''prototype'') prototypeName method of
                Inl e \<Rightarrow> Threw e w1
              | Inr proto \<Rightarrow>
                  loadPrototypes
                    (w1\<lparr>model := put_back (model w1) ''prototype'' (Obj proto)\<rparr>) rest warn))"

fun loadStatics :: "'v world \<Rightarrow> (string \<times> 'v jsval) list \<Rightarrow> bool \<Rightarrow> 'v outcome" where
  "loadStatics w [] warn = Done w"
| "loadStatics w ((staticName, method) # rest) warn =
     (let w1 = (if has_property (model w) staticName \<and> warn
                then console_warn (overrideWarning ''static'' staticName) w else w)
      in loadStatics (w1\<lparr>model := js_set (model w1) staticName method\<rparr>) rest warn)"

text \<open>The bundle: each of the four mappings may be absent.\<close>

record 'v methods =
  staticMethods :: "(string \<times> 'v jsval) list option"
  getterMethods :: "(string \<times> 'v jsval) list option"
  setterMethods :: "(string \<times> 'v jsval) list option"
  prototypeMethods :: "(string \<times> 'v jsval) list option"

text \<open>The default \<^verbatim>\<open>= {}\<close> of the destructuring pattern.\<close>

definition or_empty :: "(string \<times> 'v jsval) list option \<Rightarrow> (string \<times> 'v jsval) list" where
  "or_empty m = (case m of None \<Rightarrow> [] | Some ms \<Rightarrow> ms)"

definition loadExternalMethods ::
  "('v jsval \<Rightarrow> 'v jsobj \<Rightarrow> error + 'v jsobj) \<Rightarrow>
   'v world \<Rightarrow> 'v methods \<Rightarrow> bool \<Rightarrow> 'v outcome" where
  "loadExternalMethods invoke w ms warn =
     (let statics = or_empty (staticMethods ms);
          getters = or_empty (getterMethods ms);
          setters = or_empty (setterMethods ms);
          prototypes = or_empty (prototypeMethods ms)
      in and_then (loadGetters invoke w getters warn)
           (\<lambda>w. and_then (loadSetters invoke w setters warn)
             (\<lambda>w. and_then (loadPrototypes w prototypes warn)
               (\<lambda>w. loadStatics w statics warn))))"

section \<open>The host's \<^verbatim>\<open>refreshAttributes\<close>\<close>

text \<open>
  Modelled from the spec: \<^verbatim>\<open>Model.refreshAttributes\<close> belongs to Sequelize, whose code is
  not part of the repository; the utility only calls it. The spec keeps the getters and
  the setters of a Target as two mappings, each with a count of its entries. The
  repository's README names the fields, under its technical details:
  \<^verbatim>\<open>options.getterMethods\<close> is stored in \<^verbatim>\<open>Model.prototype._customGetters\<close> and counted
  by \<^verbatim>\<open>Model.prototype._hasCustomGetters\<close>, \<^verbatim>\<open>options.setterMethods\<close> is stored in
  \<^verbatim>\<open>Model.prototype._customSetters\<close> and counted by \<^verbatim>\<open>Model.prototype._hasCustomSetters\<close>;
  the repository's tests against Sequelize expect the same of a defined model after
  \<^verbatim>\<open>loadGetters\<close> and \<^verbatim>\<open>loadSetters\<close>. The two definitions below do this and nothing else:
  each container becomes a fresh plain object with the own enumerable entries of its
  option, each counter the number of these entries. What Sequelize's routine does
  besides is not modelled: the getters and setters declared on single attributes, and
  the accessors it defines on the prototype. No fact about the utility is stated for
  \<^verbatim>\<open>refreshAttributes\<close> silently: the routine a call reaches is the parameter \<open>invoke\<close> of
  the utility's functions, and a theorem that needs this description says so in its
  hypotheses.
\<close>

definition refreshPrototype :: "'v jsobj \<Rightarrow> 'v jsobj \<Rightarrow> 'v jsobj" where
  "refreshPrototype proto opts =
     (let getters = object_literal (spread (js_get opts ''getterMethods''));
          setters = object_literal (spread (js_get opts ''setterMethods''));
          proto1 = js_set proto ''_customGetters'' (Obj getters);
          proto2 = js_set proto1 ''_customSetters'' (Obj setters);
          proto3 = js_set proto2 ''_hasCustomGetters'' (Num (length (own getters)))
      in js_set proto3 ''_hasCustomSetters'' (Num (length (own setters))))"

definition refreshAttributes :: "'v jsobj \<Rightarrow> error + 'v jsobj" where
  "refreshAttributes m =
     (case js_get m ''prototype'' of
        Obj proto \<Rightarrow>
          (case js_get m ''options'' of
             Obj opts \<Rightarrow> Inr (put_back m ''prototype'' (Obj (refreshPrototype proto opts)))
           | _ \<Rightarrow> Inl TypeError)
      | _ \<Rightarrow> Inl TypeError)"

text \<open>An assignment to the name is not blocked by a non-writable property.\<close>

definition assignable :: "'v jsobj \<Rightarrow> string \<Rightarrow> bool" where
  "assignable obj n = (case lookup obj n of Some p \<Rightarrow> writable p | None \<Rightarrow> True)"


section \<open>Reading the regions\<close>

text \<open>\<^verbatim>\<open>x[n]\<close> for reading a result: \<^verbatim>\<open>undefined\<close> where there is nothing to read.\<close>

definition at :: "'v jsval \<Rightarrow> string \<Rightarrow> 'v jsval" where
  "at x n = (case x of Obj obj \<Rightarrow> js_get obj n | _ \<Rightarrow> Undefined)"

text \<open>\<^verbatim>\<open>Model.prototype._customGetters\<close> and \<^verbatim>\<open>Model.prototype._hasCustomGetters\<close>\<close>

definition customGetters :: "'v jsobj \<Rightarrow> 'v jsval" where
  "customGetters m = at (js_get m ''prototype'') ''_customGetters''"

definition hasCustomGetters :: "'v jsobj \<Rightarrow> 'v jsval" where
  "hasCustomGetters m = at (js_get m ''prototype'') ''_hasCustomGetters''"

text \<open>\<^verbatim>\<open>Model.prototype._customSetters\<close> and \<^verbatim>\<open>Model.prototype._hasCustomSetters\<close>\<close>

definition customSetters :: "'v jsobj \<Rightarrow> 'v jsval" where
  "customSetters m = at (js_get m ''prototype'') ''_customSetters''"

definition hasCustomSetters :: "'v jsobj \<Rightarrow> 'v jsval" where
  "hasCustomSetters m = at (js_get m ''prototype'') ''_hasCustomSetters''"




text \<open>What a call leaves behind apart from the console: whether it raised, and the model.\<close>

definition result :: "'v outcome \<Rightarrow> bool \<times> 'v jsobj" where
  "result r = (threw r, model (world_of r))"

section \<open>An example model\<close>

text \<open>
  The model of the repository's unit tests, with empty containers and zero counters,
  completed with the \<^verbatim>\<open>options\<close> and the \<^verbatim>\<open>refreshAttributes\<close> member that the utility
  reaches for.
\<close>

definition emptyPrototype :: "nat jsobj" where
  "emptyPrototype = JSObj
     [(''_customGetters'', ordinary (Obj (object_literal []))),
      (''_customSetters'', ordinary (Obj (object_literal []))),
      (''_hasCustomGetters'', ordinary (Num 0)),
      (''_hasCustomSetters'', ordinary (Num 0))] Object_prototype"

definition emptyModel :: "nat jsobj" where
  "emptyModel = JSObj
     [(''prototype'', ordinary (Obj emptyPrototype)),
      (''options'', ordinary (Obj (object_literal []))),
      (''refreshAttributes'', ordinary (Native ''refreshAttributes''))] []"

text \<open>The same model after a method \<^verbatim>\<open>otherName\<close> has been merged into each of its regions.\<close>

definition mergedPrototype :: "nat jsobj" where
  "mergedPrototype = JSObj
     [(''_customGetters'', ordinary (Obj (object_literal [(''otherName'', Callable 0)]))),
      (''_customSetters'', ordinary (Obj (object_literal [(''otherName'', Callable 0)]))),
      (''_hasCustomGetters'', ordinary (Num 1)),
      (''_hasCustomSetters'', ordinary (Num 1)),
      (''otherName'', ordinary (Callable 0))] Object_prototype"

definition mergedModel :: "nat jsobj" where
  "mergedModel = JSObj
     [(''prototype'', ordinary (Obj mergedPrototype)),
      (''options'', ordinary (Obj (object_literal
         [(''getterMethods'', Obj (object_literal [(''otherName'', Callable 0)])),
          (''setterMethods'', Obj (object_literal [(''otherName'', Callable 0)]))]))),
      (''refreshAttributes'', ordinary (Native ''refreshAttributes'')),
      (''otherName'', ordinary (Callable 0))] []"

text \<open>
  The repository's unit tests use plain objects for models: one with empty containers
  and zero counters, one whose getters container already holds \<^verbatim>\<open>otherName\<close>, and one
  with a static member. None of them has \<^verbatim>\<open>options\<close> or \<^verbatim>\<open>refreshAttributes\<close>.
\<close>

definition mockModel :: "nat jsobj" where
  "mockModel = JSObj [(''prototype'', ordinary (Obj emptyPrototype))] Object_prototype"






text \<open>
  The host of the examples. Calling the native \<^verbatim>\<open>refreshAttributes\<close> runs the routine
  described above; calling any other callable, which is opaque, changes nothing; calling
  what is not a function raises \<^verbatim>\<open>TypeError\<close>.
\<close>

definition hostInvoke :: "'v jsval \<Rightarrow> 'v jsobj \<Rightarrow> error + 'v jsobj" where
  "hostInvoke f m =
     (case f of
        Native name \<Rightarrow> if name = ''refreshAttributes'' then refreshAttributes m else Inr m
      | Callable c \<Rightarrow> Inr m
      | _ \<Rightarrow> Inl TypeError)"

section \<open>Comparing two states of a model\<close>

text \<open>
  The four regions read the same in both: the two containers and their counters, every
  member of the prototype, and every member of the model itself. The members
  \<^verbatim>\<open>prototype\<close> and \<^verbatim>\<open>options\<close> refer to objects and are compared through what the
  prototype holds; \<^verbatim>\<open>options\<close> belongs to no region.
\<close>

definition same_regions :: "'v jsobj \<Rightarrow> 'v jsobj \<Rightarrow> bool" where
  "same_regions m m' =
     (customGetters m' = customGetters m \<and> hasCustomGetters m' = hasCustomGetters m \<and>
      customSetters m' = customSetters m \<and> hasCustomSetters m' = hasCustomSetters m \<and>
      (\<forall>n. at (js_get m' ''prototype'') n = at (js_get m ''prototype'') n) \<and>
      (\<forall>n. n \<noteq> ''prototype'' \<longrightarrow> n \<noteq> ''options'' \<longrightarrow> js_get m' n = js_get m n) \<and>
      (\<forall>n. has_property m' n = has_property m n))"

section \<open>Facts about the object operations\<close>

lemma map_of_map_entry_same:
  "map_of (AList.map_entry n f ps) n = map_option f (map_of ps n)"
  by (simp add: map_of_map_entry split: option.splits)

lemma map_of_map_entry_other:
  "m \<noteq> n \<Longrightarrow> map_of (AList.map_entry n f ps) m = map_of ps m"
  by (simp add: map_of_map_entry)

lemma lookup_js_set_other:
  "m \<noteq> n \<Longrightarrow> lookup (js_set obj n v) m = lookup obj m"
  by (auto simp: lookup_def js_set_def map_of_map_entry_other split: option.splits)

lemma lookup_js_set_same:
  "assignable obj n \<Longrightarrow> \<exists>p. lookup (js_set obj n v) n = Some p \<and> pvalue p = v \<and> writable p"
  by (auto simp: lookup_def js_set_def assignable_def map_of_map_entry_same set_value_def
      ordinary_def split: option.splits)



lemma js_set_blocked: "\<not> assignable obj n \<Longrightarrow> js_set obj n v = obj"
  by (auto simp: js_set_def assignable_def lookup_def split: option.splits)

lemma has_property_js_set: "has_property obj m \<Longrightarrow> has_property (js_set obj n v) m"
proof (cases "m = n")
  case True
  assume h: "has_property obj m"
  show ?thesis
  proof (cases "assignable obj n")
    case True
    with \<open>m = n\<close> lookup_js_set_same [of obj n v] show ?thesis
      by (auto simp: has_property_def)
  next
    case False
    with h show ?thesis by (simp add: js_set_blocked)
  qed
next
  case False
  assume "has_property obj m"
  with False show ?thesis by (simp add: has_property_def lookup_js_set_other)
qed



lemma lookup_put_back_same: "lookup (put_back obj n v) n = map_option (set_value v) (lookup obj n)"
  by (auto simp: lookup_def put_back_def map_of_map_entry_same split: option.splits)

lemma js_get_put_back_same: "has_property obj n \<Longrightarrow> js_get (put_back obj n v) n = v"
  by (auto simp: js_get_def has_property_def lookup_put_back_same set_value_def)




lemma has_property_js_get: "js_get obj n = Obj x \<Longrightarrow> has_property obj n"
  by (auto simp: js_get_def has_property_def split: option.splits)



lemma define_value_fresh:
  "map_of (own obj) n = None \<Longrightarrow>
   define_value obj n v = Inr (JSObj (own obj @ [(n, value_only v)]) (inherited obj))"
  by (simp add: define_value_def)

section \<open>The warn flag\<close>

lemma result_and_then:
  assumes "result r = result r'"
    and "\<And>w w'. model w = model w' \<Longrightarrow> result (f w) = result (f' w')"
  shows "result (and_then r f) = result (and_then r' f')"
  using assms by (cases r; cases r') (auto simp: and_then_def result_def threw_def)

lemma console_and_then:
  assumes "console (world_of r) = c"
    and "\<And>w. console w = c \<Longrightarrow> console (world_of (f w)) = c"
  shows "console (world_of (and_then r f)) = c"
  using assms by (cases r) (auto simp: and_then_def)

lemma model_console_warn [simp]: "model (console_warn msg w) = model w"
  by (simp add: console_warn_def)

lemma warnOverrides_result:
  "model w = model w' \<Longrightarrow>
   result (warnOverrides loc c w ns warn) = result (warnOverrides loc c w' ns warn')"
proof (induction ns arbitrary: w w')
  case Nil
  then show ?case by (simp add: result_def threw_def)
next
  case (Cons n ns)
  show ?case
  proof (cases "member (js_get (model w) ''prototype'') c")
    case (Inl e)
    with Cons.prems show ?thesis by (simp add: result_def threw_def)
  next
    case (Inr container)
    show ?thesis
    proof (cases "js_in n container")
      case (Inl e)
      with Inr Cons.prems show ?thesis by (simp add: result_def threw_def)
    next
      case (Inr b)
      note mem = \<open>member (js_get (model w) ''prototype'') c = Inr container\<close>
      have 1: "warnOverrides loc c w (n # ns) warn =
            warnOverrides loc c
              (if b \<and> warn then console_warn (overrideWarning loc n) w else w) ns warn"
        using Inr mem by simp
      have 2: "warnOverrides loc c w' (n # ns) warn' =
            warnOverrides loc c
              (if b \<and> warn' then console_warn (overrideWarning loc n) w' else w') ns warn'"
        using Inr mem Cons.prems by simp
      show ?thesis unfolding 1 2 by (rule Cons.IH) (simp add: Cons.prems)
    qed
  qed
qed

lemma warnOverrides_silent: "console (world_of (warnOverrides loc c w ns False)) = console w"
  by (induction ns arbitrary: w) (auto split: sum.splits)

lemma mergeOption_result:
  "model w = model w' \<Longrightarrow> result (mergeOption opt w ms) = result (mergeOption opt w' ms)"
  by (auto simp: mergeOption_def result_def threw_def split: jsval.splits)

lemma mergeOption_console: "console (world_of (mergeOption opt w ms)) = console w"
  by (auto simp: mergeOption_def split: jsval.splits)

lemma callRefreshAttributes_result:
  "model w = model w' \<Longrightarrow>
   result (callRefreshAttributes invoke w) = result (callRefreshAttributes invoke w')"
  by (auto simp: callRefreshAttributes_def result_def threw_def split: sum.splits)

lemma callRefreshAttributes_console:
  "console (world_of (callRefreshAttributes invoke w)) = console w"
  by (auto simp: callRefreshAttributes_def split: sum.splits)

lemma loadGetters_result:
  "model w = model w' \<Longrightarrow>
   result (loadGetters invoke w ms warn) = result (loadGetters invoke w' ms warn')"
  unfolding loadGetters_def
  by (intro result_and_then warnOverrides_result mergeOption_result callRefreshAttributes_result)

lemma loadSetters_result:
  "model w = model w' \<Longrightarrow>
   result (loadSetters invoke w ms warn) = result (loadSetters invoke w' ms warn')"
  unfolding loadSetters_def
  by (intro result_and_then warnOverrides_result mergeOption_result callRefreshAttributes_result)

lemma loadGetters_silent: "console (world_of (loadGetters invoke w ms False)) = console w"
  unfolding loadGetters_def
  by (intro console_and_then) (simp_all add: warnOverrides_silent mergeOption_console
      callRefreshAttributes_console)

lemma loadSetters_silent: "console (world_of (loadSetters invoke w ms False)) = console w"
  unfolding loadSetters_def
  by (intro console_and_then) (simp_all add: warnOverrides_silent mergeOption_console
      callRefreshAttributes_console)

lemma loadPrototypes_result:
  "model w = model w' \<Longrightarrow> result (loadPrototypes w ms warn) = result (loadPrototypes w' ms warn')"
proof (induction ms arbitrary: w w')
  case Nil
  then show ?case by (simp add: result_def threw_def)
next
  case (Cons a ms)
  obtain n v where a: "a = (n, v)" by (cases a)
  show ?case
  proof (cases "js_in n (js_get (model w) ''prototype'')")
    case (Inl e)
    with a Cons.prems show ?thesis by (simp add: result_def threw_def)
  next
    case (Inr b)
    show ?thesis
    proof (cases "Object_defineProperty (js_get (model w) ''prototype'') n v")
      case (Inl e)
      with Inr a Cons.prems show ?thesis by (simp add: result_def threw_def Let_def)
    next
      case (Inr proto)
      note js = \<open>js_in n (js_get (model w) ''prototype'') = Inr b\<close>
      have 1: "loadPrototypes w (a # ms) warn =
            loadPrototypes
              ((if b \<and> warn then console_warn (overrideWarning ''prototype'' n) w else w)
                 \<lparr>model := put_back (model w) ''prototype'' (Obj proto)\<rparr>) ms warn"
        using Inr js a by (simp add: Let_def)
      have 2: "loadPrototypes w' (a # ms) warn' =
            loadPrototypes
              ((if b \<and> warn' then console_warn (overrideWarning ''prototype'' n) w' else w')
                 \<lparr>model := put_back (model w') ''prototype'' (Obj proto)\<rparr>) ms warn'"
        using Inr js a Cons.prems by (simp add: Let_def)
      show ?thesis unfolding 1 2 by (rule Cons.IH) (simp add: Cons.prems)
    qed
  qed
qed

lemma loadPrototypes_silent: "console (world_of (loadPrototypes w ms False)) = console w"
  by (induction ms arbitrary: w) (auto simp: Let_def split: sum.splits)

lemma loadStatics_result:
  "model w = model w' \<Longrightarrow> result (loadStatics w ms warn) = result (loadStatics w' ms warn')"
proof (induction ms arbitrary: w w')
  case Nil
  then show ?case by (simp add: result_def threw_def)
next
  case (Cons a ms)
  obtain n v where a: "a = (n, v)" by (cases a)
  show ?case
    unfolding a loadStatics.simps Let_def by (rule Cons.IH) (simp add: Cons.prems)
qed

lemma loadStatics_silent: "console (world_of (loadStatics w ms False)) = console w"
  by (induction ms arbitrary: w) (auto simp: Let_def)

lemma loadExternalMethods_result:
  "result (loadExternalMethods invoke w ms warn) = result (loadExternalMethods invoke w ms warn')"
  unfolding loadExternalMethods_def Let_def
  by (intro result_and_then loadGetters_result loadSetters_result loadPrototypes_result
      loadStatics_result) simp

lemma loadExternalMethods_silent:
  "console (world_of (loadExternalMethods invoke w ms False)) = console w"
  unfolding loadExternalMethods_def Let_def
  by (intro console_and_then)
    (simp_all add: loadGetters_silent loadSetters_silent loadPrototypes_silent loadStatics_silent)

text \<open>
  Claim C3. For every model, each of \<^verbatim>\<open>loadGetters\<close>, \<^verbatim>\<open>loadSetters\<close>,
  \<^verbatim>\<open>loadPrototypes\<close>, \<^verbatim>\<open>loadStatics\<close> and \<^verbatim>\<open>loadExternalMethods\<close>, and every input:
  with \<^verbatim>\<open>warn = false\<close> the console is left as it was, whatever the conflicts, and
  the call ends as it does with \<^verbatim>\<open>warn = true\<close>, with the same model and the same
  exception or none. The flag reaches the console only.
\<close>

theorem warn_only_observable:
  "console (world_of (loadGetters invoke w ms False)) = console w \<and>
   result (loadGetters invoke w ms False) = result (loadGetters invoke w ms True) \<and>
   console (world_of (loadSetters invoke w ms False)) = console w \<and>
   result (loadSetters invoke w ms False) = result (loadSetters invoke w ms True) \<and>
   console (world_of (loadPrototypes w ms False)) = console w \<and>
   result (loadPrototypes w ms False) = result (loadPrototypes w ms True) \<and>
   console (world_of (loadStatics w ms False)) = console w \<and>
   result (loadStatics w ms False) = result (loadStatics w ms True) \<and>
   console (world_of (loadExternalMethods invoke w bundle False)) = console w \<and>
   result (loadExternalMethods invoke w bundle False) =
     result (loadExternalMethods invoke w bundle True)"
  by (simp add: loadGetters_silent loadSetters_silent loadPrototypes_silent loadStatics_silent
      loadExternalMethods_silent loadGetters_result [of w w] loadSetters_result [of w w]
      loadPrototypes_result [of w w] loadStatics_result [of w w]
      loadExternalMethods_result [of _ _ _ False True])

section \<open>\<^verbatim>\<open>loadStatics\<close>\<close>








lemma loadStatics_Done: "\<not> threw (loadStatics w ms warn)"
  by (induction ms arbitrary: w) (auto simp: Let_def threw_def)

section \<open>Object literals\<close>

lemma create_properties_Nil [simp]: "create_properties ps [] = ps"
  by (simp add: create_properties_def)


lemma create_properties_append:
  "create_properties ps (xs @ ys) = create_properties (create_properties ps xs) ys"
  by (simp add: create_properties_def)














lemma object_literal_append:
  "object_literal (es @ ms) = JSObj (create_properties (own (object_literal es)) ms) Object_prototype"
  by (simp add: object_literal_def create_properties_append)

section \<open>The host's routine\<close>



lemma has_property_refreshPrototype:
  "has_property proto n \<Longrightarrow> has_property (refreshPrototype proto opts) n"
  by (simp add: refreshPrototype_def Let_def has_property_js_set)





section \<open>The steps of \<^verbatim>\<open>loadGetters\<close> and \<^verbatim>\<open>loadSetters\<close>\<close>









section \<open>\<^verbatim>\<open>loadPrototypes\<close>\<close>

lemma map_entry_twice:
  "AList.map_entry n f (AList.map_entry n g ps) = AList.map_entry n (f \<circ> g) ps"
  by (induction ps) auto

lemma put_back_twice: "put_back (put_back obj n v) n v' = put_back obj n v'"
proof -
  have c: "set_value v' \<circ> set_value v = set_value v'"
    by (rule ext) (simp add: set_value_def)
  show ?thesis
    by (cases "map_of (own obj) n")
      (simp_all add: put_back_def map_of_map_entry_same map_entry_twice c)
qed

lemma loadPrototypes_step:
  assumes "js_get (model w) ''prototype'' = Obj proto"
  shows "loadPrototypes w ((n, v) # rest) warn =
     (case define_value proto n v of
        Inl e \<Rightarrow>
          Threw e (if has_property proto n \<and> warn
                   then console_warn (overrideWarning ''prototype'' n) w else w)
      | Inr proto' \<Rightarrow>
          loadPrototypes
            ((if has_property proto n \<and> warn
              then console_warn (overrideWarning ''prototype'' n) w else w)
               \<lparr>model := put_back (model w) ''prototype'' (Obj proto')\<rparr>) rest warn)"
  using assms by (simp add: js_in_def Object_defineProperty_def Let_def split: sum.splits)





text \<open>Names that are not own properties of the prototype are all installed.\<close>

lemma loadPrototypes_fresh:
  assumes "js_get (model w) ''prototype'' = Obj proto"
    and "distinct (map fst ms)"
    and "\<forall>n \<in> fst ` set ms. map_of (own proto) n = None"
  shows "loadPrototypes w ms warn =
     Done (w\<lparr>model := (if ms = [] then model w else put_back (model w) ''prototype''
               (Obj (JSObj (own proto @ map (\<lambda>(n, v). (n, value_only v)) ms) (inherited proto)))),
             console := console w @
               (if warn then map (overrideWarning ''prototype'')
                  (filter (\<lambda>n. map_of (inherited proto) n \<noteq> None) (map fst ms)) else [])\<rparr>)"
  using assms
proof (induction ms arbitrary: w proto)
  case Nil
  then show ?case by simp
next
  case (Cons a ms)
  obtain k x where a: "a = (k, x)" by (cases a)
  let ?proto1 = "JSObj (own proto @ [(k, value_only x)]) (inherited proto)"
  let ?w1 = "if has_property proto k \<and> warn
             then console_warn (overrideWarning ''prototype'' k) w else w"
  let ?w2 = "?w1\<lparr>model := put_back (model w) ''prototype'' (Obj ?proto1)\<rparr>"
  from Cons.prems a have k: "map_of (own proto) k = None" by simp
  then have d: "define_value proto k x = Inr ?proto1" by (rule define_value_fresh)
  have h: "has_property proto k = (map_of (inherited proto) k \<noteq> None)"
    using k by (simp add: has_property_def lookup_def)
  have p2: "js_get (model ?w2) ''prototype'' = Obj ?proto1"
    using Cons.prems(1) by (simp add: js_get_put_back_same has_property_js_get)
  have d2: "distinct (map fst ms)" using Cons.prems(2) by simp
  have f2: "\<forall>n \<in> fst ` set ms. map_of (own ?proto1) n = None"
    using Cons.prems(2,3) a by auto
  have step: "loadPrototypes w (a # ms) warn = loadPrototypes ?w2 ms warn"
    unfolding a loadPrototypes_step [OF Cons.prems(1)] d by simp
  show ?case
    unfolding step Cons.IH [OF p2 d2 f2]
    by (cases "ms = []") (simp_all add: a h put_back_twice console_warn_def)
qed

lemma emptyModel_members:
  "js_get emptyModel ''prototype'' = Obj emptyPrototype"
  "js_get emptyModel ''options'' = Obj (object_literal [])"
  by (simp_all add: emptyModel_def js_get_def lookup_def ordinary_def)

lemma hostInvoke_native: "hostInvoke (Native ''refreshAttributes'') = refreshAttributes"
  by (rule ext) (simp add: hostInvoke_def)

lemma hostInvoke:
  "hostInvoke (js_get emptyModel ''refreshAttributes'') = refreshAttributes"
  "hostInvoke (js_get mergedModel ''refreshAttributes'') = refreshAttributes"
  "hostInvoke (js_get (js_set emptyModel ''findById'' (Callable 0)) ''refreshAttributes'') =
     refreshAttributes"
proof -
  have "js_get emptyModel ''refreshAttributes'' = Native ''refreshAttributes''"
    "js_get mergedModel ''refreshAttributes'' = Native ''refreshAttributes''"
    "js_get (js_set emptyModel ''findById'' (Callable 0)) ''refreshAttributes'' =
       Native ''refreshAttributes''"
    by code_simp+
  then show
    "hostInvoke (js_get emptyModel ''refreshAttributes'') = refreshAttributes"
    "hostInvoke (js_get mergedModel ''refreshAttributes'') = refreshAttributes"
    "hostInvoke (js_get (js_set emptyModel ''findById'' (Callable 0)) ''refreshAttributes'') =
       refreshAttributes"
    by (simp_all add: hostInvoke_native)
qed

section \<open>The composer\<close>

text \<open>
  Claim C4. For every model, bundle and warn flag, \<^verbatim>\<open>loadExternalMethods\<close> takes the four
  mappings of the bundle, an absent one as the empty mapping, and calls
  \<^verbatim>\<open>loadGetters\<close>, \<^verbatim>\<open>loadSetters\<close>, \<^verbatim>\<open>loadPrototypes\<close> and \<^verbatim>\<open>loadStatics\<close> in this order,
  each on the model as the one before left it and each with the same warn flag; a call
  that raises ends the sequence.
\<close>

theorem composer_order:
  "loadExternalMethods invoke w bundle warn =
     (case loadGetters invoke w
             (case getterMethods bundle of None \<Rightarrow> [] | Some ms \<Rightarrow> ms) warn of
        Threw e w1 \<Rightarrow> Threw e w1
      | Done w1 \<Rightarrow>
          (case loadSetters invoke w1
                  (case setterMethods bundle of None \<Rightarrow> [] | Some ms \<Rightarrow> ms) warn of
             Threw e w2 \<Rightarrow> Threw e w2
           | Done w2 \<Rightarrow>
               (case loadPrototypes w2
                       (case prototypeMethods bundle of None \<Rightarrow> [] | Some ms \<Rightarrow> ms) warn of
                  Threw e w3 \<Rightarrow> Threw e w3
                | Done w3 \<Rightarrow>
                    loadStatics w3
                      (case staticMethods bundle of None \<Rightarrow> [] | Some ms \<Rightarrow> ms) warn)))"
  by (simp add: loadExternalMethods_def Let_def and_then_def or_empty_def)

section \<open>Static methods\<close>












section \<open>Names the prototype inherits\<close>

text \<open>
  Claim C10. \<^verbatim>\<open>loadPrototypes\<close> tests \<^verbatim>\<open>prototypeName in Model.prototype\<close>, which follows
  the prototype chain: merging methods under names that are not own properties of the
  prototype warns, with \<^verbatim>\<open>warn = true\<close>, for every one of them that the prototype
  inherits, \<^verbatim>\<open>toString\<close> for one, although the prototype never held an entry of that
  name.
\<close>

theorem inherited_name_warns:
  assumes "js_get (model w) ''prototype'' = Obj proto"
    and "distinct (map fst ms)"
    and "\<forall>n \<in> fst ` set ms. n \<notin> fst ` set (own proto)"
  shows "\<exists>w'. loadPrototypes w ms True = Done w' \<and>
     console w' = console w @ map (overrideWarning ''prototype'')
       (filter (\<lambda>n. n \<in> fst ` set (inherited proto)) (map fst ms))"
proof -
  from assms(3) have f: "\<forall>n \<in> fst ` set ms. map_of (own proto) n = None"
    by (simp add: map_of_eq_None_iff)
  have "(\<lambda>n. map_of (inherited proto) n \<noteq> None) = (\<lambda>n. n \<in> fst ` set (inherited proto))"
    by (simp add: map_of_eq_None_iff)
  with loadPrototypes_fresh [OF assms(1,2) f, of True] show ?thesis by simp
qed

theorem inherited_name_warns_witness:
  "js_get (model \<lparr>model = emptyModel, console = []\<rparr>) ''prototype'' = Obj emptyPrototype \<and>
   ''toString'' \<notin> fst ` set (own emptyPrototype) \<and>
   ''toString'' \<in> fst ` set (inherited emptyPrototype) \<and>
   (\<exists>w'. loadPrototypes \<lparr>model = emptyModel, console = []\<rparr>
           [(''toString'', Callable 1)] True = Done w' \<and>
         console w' = [''Existing [prototype] method [toString] overridden by loadExternalMethods''])"
  using inherited_name_warns [of "\<lparr>model = emptyModel, console = []\<rparr>" emptyPrototype
      "[(''toString'', Callable 1)]"]
  by (simp add: emptyModel_members emptyPrototype_def natives_def Object_prototype_names_def
      overrideWarning_def)

section \<open>Counting getters and setters\<close>




lemma emptyPrototype_members:
  "js_get emptyPrototype ''_customGetters'' = Obj (object_literal [])"
  "js_get emptyPrototype ''_customSetters'' = Obj (object_literal [])"
  "js_get emptyPrototype ''_hasCustomGetters'' = Num 0"
  "js_get emptyPrototype ''_hasCustomSetters'' = Num 0"
  "assignable emptyPrototype ''_customGetters''"
  "assignable emptyPrototype ''_customSetters''"
  "assignable emptyPrototype ''_hasCustomGetters''"
  "assignable emptyPrototype ''_hasCustomSetters''"
  by (simp_all add: emptyPrototype_def js_get_def assignable_def lookup_def ordinary_def)



lemma counters_emptyModel:
  "hasCustomGetters emptyModel = Num 0" "hasCustomSetters emptyModel = Num 0"
  "customGetters emptyModel = Obj (object_literal [])"
  "customSetters emptyModel = Obj (object_literal [])"
  by (simp_all add: hasCustomGetters_def hasCustomSetters_def customGetters_def
      customSetters_def at_def emptyModel_members emptyPrototype_members)







section \<open>Nothing is removed\<close>










section \<open>Empty input\<close>

lemma same_regions_refl: "same_regions m m"
  by (simp add: same_regions_def)









section \<open>The same name merged twice\<close>












section \<open>Merging names the region does not show\<close>


lemma map_of_installed:
  "distinct (map fst ms) \<Longrightarrow> (n, v) \<in> set ms \<Longrightarrow>
   map_of (map (\<lambda>(n, v). (n, value_only v)) ms) n = Some (value_only v)"
  by (induction ms) (auto simp: rev_image_eqI)










section \<open>Methods installed by \<^verbatim>\<open>Object.defineProperty\<close>\<close>


lemma own_installed:
  assumes "distinct (map fst ms)" "(n, v) \<in> set ms" "map_of ps n = None"
  shows "map_of (ps @ map (\<lambda>(n, v). (n, value_only v)) ms) n = Some (value_only v)"
  using assms(3) map_of_installed [OF assms(1,2)] by (simp add: map_add_def)











end
